theory Spec2Isabelle
  imports Main "HOL-Library.Word"
begin

section \<open>LVGLDisplayDriver: the display adapter of LittlevGL for Mbed OS\<close>

text \<open>
  A shallow embedding of the class \<open>LVGLDisplayDriver\<close> of \<open>LVGLDisplayDriver.h\<close>.
  Every member function takes the object (\<open>this\<close>) and whatever else it can touch
  (the heap, the standard output, the objects its pointer arguments refer to) and
  returns them as the function leaves them. A failing \<open>MBED_ASSERT\<close> halts the
  program; the model returns the error together with the state at the halt.
\<close>

subsection \<open>What the header takes from its environment\<close>

text \<open>
  The macros of the build configuration (\<open>lv_conf.h\<close>, \<open>mbed_lib.json\<close>) are the
  fields of a record, so that every theorem holds for every configuration.
\<close>

record config =
  LV_HOR_RES_MAX :: int
  LV_VER_RES_MAX :: int
  MBED_CONF_MBED_LVGL_DEFAULT_DISPLAY_BUFFER_SIZE :: nat
  MBED_CONF_MBED_LVGL_ENABLE_FLUSH_MONITORING :: bool

text \<open>
  \<open>lv_coord_t\<close> is LittlevGL's coordinate type, \<open>int16_t\<close>: a 16-bit word read as
  two's complement (\<open>sint\<close>). \<open>uint32_t\<close> is a 32-bit word.
\<close>

type_synonym lv_coord_t = "16 word"
type_synonym uint32_t = "32 word"

text \<open>
  Pointers are only stored, compared and handed on, never dereferenced or offset, so
  a pointer is an opaque number and \<open>NULL\<close> is 0.
\<close>

type_synonym ptr = nat

definition NULL :: ptr where
  "NULL = 0"

text \<open>
  \<open>mbed::Span<lv_color_t>\<close>: a pointer and an element count. The default
  constructed span (the default argument \<open>mbed::Span<lv_color_t, 0>()\<close> too) is
  \<open>(NULL, 0)\<close>; \<open>empty()\<close> is \<open>size() == 0\<close>.
\<close>

record span =
  span_data :: ptr
  span_size :: nat

definition Span :: "ptr \<Rightarrow> nat \<Rightarrow> span" where
  "Span p n = \<lparr>span_data = p, span_size = n\<rparr>"

definition Span_default :: span where
  "Span_default = Span NULL 0"

definition span_empty :: "span \<Rightarrow> bool" where
  "span_empty s = (span_size s = 0)"

text \<open>
  The free store. \<open>blocks\<close> are the live arrays of \<open>new[]\<close> (address and element
  count), \<open>deleted\<close> is the log of the \<open>delete[]\<close> calls, oldest first. \<open>new[]\<close>
  returns an address that is not \<open>NULL\<close> and above every address the heap has seen;
  the model has no bound on memory, so \<open>new[]\<close> always returns. \<open>delete[]\<close> of
  \<open>NULL\<close> does nothing.
\<close>

record heap =
  blocks :: "(ptr \<times> nat) list"
  deleted :: "ptr list"

definition fresh_ptr :: "heap \<Rightarrow> ptr" where
  "fresh_ptr h = Suc (foldr max (map fst (blocks h) @ deleted h) 0)"

definition new_array :: "nat \<Rightarrow> heap \<Rightarrow> ptr \<times> heap" where
  "new_array n h = (fresh_ptr h, h\<lparr>blocks := (fresh_ptr h, n) # blocks h\<rparr>)"


text \<open>
  \<open>lv_disp_buf_t\<close> is opaque to the adapter: all it does with it is call
  \<open>lv_disp_buf_init(&lv_buf, buf1, buf2, size_in_px_cnt)\<close>. The descriptor is the
  record of the arguments of that call.
\<close>

record lv_disp_buf_t =
  buf1 :: ptr
  buf2 :: ptr
  size_in_px_cnt :: nat

definition lv_disp_buf_init :: "ptr \<Rightarrow> ptr \<Rightarrow> nat \<Rightarrow> lv_disp_buf_t" where
  "lv_disp_buf_init b1 b2 n = \<lparr>buf1 = b1, buf2 = b2, size_in_px_cnt = n\<rparr>"

text \<open>
  \<open>MBED_ASSERT(e)\<close> goes on when \<open>e\<close> holds and halts the program otherwise. The
  error carries the state \<open>s\<close> the program halts in. Reading a member that was never
  written is the second error.
\<close>

datatype error = AssertionFailed | IndeterminateRead

definition MBED_ASSERT :: "bool \<Rightarrow> 's \<Rightarrow> (error \<times> 's) + 's" where
  "MBED_ASSERT e s = (if e then Inr s else Inl (AssertionFailed, s))"

text \<open>A call of \<open>printf\<close>: the format string and the arguments after it.\<close>

datatype printf_call = Printf string "uint32_t list"

subsection \<open>The class\<close>

text \<open>
  The data members, in the order of their declaration. \<open>lv_buf\<close> and
  \<open>user_provided_display_buffer\<close> have no initializer in the constructor's
  initializer list: \<open>None\<close> is the indeterminate value they hold until written.
\<close>

record LVGLDisplayDriver =
  primary_display_buffer :: span
  secondary_display_buffer :: span
  hor_res :: lv_coord_t
  ver_res :: lv_coord_t
  lv_buf :: "lv_disp_buf_t option"
  user_provided_display_buffer :: "bool option"
  lv_disp_obj :: ptr

text \<open>
  The object when the constructor's body starts: the spans default constructed, and
  \<open>hor_res(LV_HOR_RES_MAX), ver_res(LV_VER_RES_MAX), lv_disp_obj(NULL)\<close>.
\<close>

definition member_initializers :: "config \<Rightarrow> LVGLDisplayDriver" where
  "member_initializers cfg =
     \<lparr>primary_display_buffer = Span_default,
      secondary_display_buffer = Span_default,
      hor_res = word_of_int (LV_HOR_RES_MAX cfg),
      ver_res = word_of_int (LV_VER_RES_MAX cfg),
      lv_buf = None,
      user_provided_display_buffer = None,
      lv_disp_obj = NULL\<rparr>"

definition initialize_display_buffers :: "LVGLDisplayDriver \<Rightarrow> LVGLDisplayDriver" where
  "initialize_display_buffers this =
     this\<lparr>lv_buf := Some (lv_disp_buf_init
        (span_data (primary_display_buffer this))
        (span_data (secondary_display_buffer this))
        (span_size (primary_display_buffer this)))\<rparr>"

text \<open>
  The constructor. Its two arguments are the spans \<open>primary\<close> and \<open>secondary\<close>;
  the construction with no arguments passes \<open>Span_default\<close> twice.
\<close>

definition LVGLDisplayDriver_ctor ::
  "config \<Rightarrow> span \<Rightarrow> span \<Rightarrow> heap \<Rightarrow>
     (error \<times> LVGLDisplayDriver \<times> heap) + (LVGLDisplayDriver \<times> heap)" where
  "LVGLDisplayDriver_ctor cfg primary secondary h =
     (case
        (if span_empty primary then
           (let this = (member_initializers cfg)\<lparr>user_provided_display_buffer := Some False\<rparr>;
                (buf, h') = new_array (MBED_CONF_MBED_LVGL_DEFAULT_DISPLAY_BUFFER_SIZE cfg) h
            in Inr (this\<lparr>primary_display_buffer :=
                      Span buf (MBED_CONF_MBED_LVGL_DEFAULT_DISPLAY_BUFFER_SIZE cfg)\<rparr>, h'))
         else
           (let this = (member_initializers cfg)\<lparr>user_provided_display_buffer := Some True\<rparr>;
                this = this\<lparr>primary_display_buffer := primary\<rparr>
            in MBED_ASSERT (span_empty secondary \<or> span_size secondary = span_size primary)
                 (this, h)))
      of
        Inl halted \<Rightarrow> Inl halted
      | Inr (this, h') \<Rightarrow>
          Inr (initialize_display_buffers (this\<lparr>secondary_display_buffer := secondary\<rparr>), h'))"


definition set_resolution ::
  "config \<Rightarrow> lv_coord_t \<Rightarrow> lv_coord_t \<Rightarrow> LVGLDisplayDriver \<Rightarrow>
     (error \<times> LVGLDisplayDriver) + LVGLDisplayDriver" where
  "set_resolution cfg new_hor_res new_ver_res this =
     (case MBED_ASSERT (sint new_hor_res \<le> LV_HOR_RES_MAX cfg) this of
        Inl halted \<Rightarrow> Inl halted
      | Inr this \<Rightarrow>
          (case MBED_ASSERT (sint new_ver_res \<le> LV_VER_RES_MAX cfg) this of
             Inl halted \<Rightarrow> Inl halted
           | Inr this \<Rightarrow> Inr (this\<lparr>hor_res := new_hor_res, ver_res := new_ver_res\<rparr>)))"

text \<open>
  \<open>get_resolution(&h, &v)\<close> writes the two members through its out-pointers: the
  model returns the pair written, and the object as the call leaves it.
\<close>

definition get_resolution :: "LVGLDisplayDriver \<Rightarrow> (lv_coord_t \<times> lv_coord_t) \<times> LVGLDisplayDriver" where
  "get_resolution this = ((hor_res this, ver_res this), this)"

text \<open>
  The hooks with a default body (\<open>flush\<close> is pure virtual and has none; the two
  GPU hooks exist only under \<open>USE_LV_GPU\<close> and are left out, as is \<open>get_lv_buf\<close>,
  which returns the address of \<open>lv_buf\<close>). Each returns the object, the objects behind its pointer arguments and the standard
  output as the body leaves them. The types of LittlevGL (\<open>lv_disp_drv_t\<close>,
  \<open>lv_area_t\<close>, \<open>lv_color_t\<close>, \<open>lv_opa_t\<close>) and the bytes behind \<open>buf\<close> are type
  variables: no body looks into them.
\<close>

definition has_rounder :: "LVGLDisplayDriver \<Rightarrow> bool" where
  "has_rounder this = False"

definition round_lv_area ::
  "LVGLDisplayDriver \<Rightarrow> 'disp_drv \<Rightarrow> 'area \<Rightarrow> printf_call list \<Rightarrow>
     LVGLDisplayDriver \<times> 'disp_drv \<times> 'area \<times> printf_call list" where
  "round_lv_area this disp_drv area out = (this, disp_drv, area, out)"

definition has_pix_write_func :: "LVGLDisplayDriver \<Rightarrow> bool" where
  "has_pix_write_func this = False"

definition set_pixel ::
  "LVGLDisplayDriver \<Rightarrow> 'disp_drv \<Rightarrow> 'bytes \<Rightarrow> lv_coord_t \<Rightarrow> lv_coord_t \<Rightarrow> lv_coord_t \<Rightarrow>
     'color \<Rightarrow> 'opa \<Rightarrow> printf_call list \<Rightarrow>
     LVGLDisplayDriver \<times> 'disp_drv \<times> 'bytes \<times> printf_call list" where
  "set_pixel this disp_drv buf buf_w x y color opa out = (this, disp_drv, buf, out)"

text \<open>
  \<open>monitor(disp_drv, time, px)\<close>. With flush monitoring compiled in, the body is
  \<open>printf("%d px refreshed in %d ms\n", time, ms)\<close>. The identifier \<open>ms\<close> is
  declared nowhere in the header: the model takes its value, whatever the build
  resolves it to, as the argument \<open>ms\<close>.
\<close>

definition monitor ::
  "config \<Rightarrow> uint32_t \<Rightarrow> LVGLDisplayDriver \<Rightarrow> 'disp_drv \<Rightarrow> uint32_t \<Rightarrow> uint32_t \<Rightarrow>
     printf_call list \<Rightarrow> LVGLDisplayDriver \<times> 'disp_drv \<times> printf_call list" where
  "monitor cfg ms this disp_drv time px out =
     (if MBED_CONF_MBED_LVGL_ENABLE_FLUSH_MONITORING cfg
      then (this, disp_drv, out @ [Printf (''%d px refreshed in %d ms'' @ [CHR 0x0A]) [time, ms]])
      else (this, disp_drv, out))"

definition set_lv_disp_obj :: "ptr \<Rightarrow> LVGLDisplayDriver \<Rightarrow> LVGLDisplayDriver" where
  "set_lv_disp_obj disp_obj this = this\<lparr>lv_disp_obj := disp_obj\<rparr>"

definition get_lv_disp_obj :: "LVGLDisplayDriver \<Rightarrow> ptr \<times> LVGLDisplayDriver" where
  "get_lv_disp_obj this = (lv_disp_obj this, this)"

subsection \<open>A configuration and buffers to run the model on\<close>

text \<open>
  A 480 by 320 panel with a default buffer of ten lines and monitoring compiled out,
  the same with monitoring compiled in, an empty heap, and caller-supplied buffers:
  one of 64 pixels, and at another address one of 32 and one of 64 pixels.
\<close>

definition cfg_480x320 :: config where
  "cfg_480x320 =
     \<lparr>LV_HOR_RES_MAX = 480, LV_VER_RES_MAX = 320,
      MBED_CONF_MBED_LVGL_DEFAULT_DISPLAY_BUFFER_SIZE = 4800,
      MBED_CONF_MBED_LVGL_ENABLE_FLUSH_MONITORING = False\<rparr>"

definition cfg_monitoring :: config where
  "cfg_monitoring = cfg_480x320\<lparr>MBED_CONF_MBED_LVGL_ENABLE_FLUSH_MONITORING := True\<rparr>"

definition heap_empty :: heap where
  "heap_empty = \<lparr>blocks = [], deleted = []\<rparr>"

definition buffer_64 :: span where
  "buffer_64 = Span 4096 64"

definition buffer_32 :: span where
  "buffer_32 = Span 8192 32"

definition other_buffer_64 :: span where
  "other_buffer_64 = Span 8192 64"

section \<open>Properties\<close>

subsection \<open>Resolution\<close>

lemma set_resolution_in_bounds:
  "sint h \<le> LV_HOR_RES_MAX cfg \<Longrightarrow> sint v \<le> LV_VER_RES_MAX cfg \<Longrightarrow>
     set_resolution cfg h v this = Inr (this\<lparr>hor_res := h, ver_res := v\<rparr>)"
  by (simp add: set_resolution_def MBED_ASSERT_def)

lemma set_resolution_out_of_bounds:
  "LV_HOR_RES_MAX cfg < sint h \<or> LV_VER_RES_MAX cfg < sint v \<Longrightarrow>
     set_resolution cfg h v this = Inl (AssertionFailed, this)"
  by (auto simp: set_resolution_def MBED_ASSERT_def)

text \<open>
  C2. For every \<open>h \<le> LV_HOR_RES_MAX\<close> and \<open>v \<le> LV_VER_RES_MAX\<close>,
  \<open>set_resolution(h, v)\<close> followed by \<open>get_resolution()\<close> yields exactly \<open>(h, v)\<close>;
  for every \<open>h > LV_HOR_RES_MAX\<close> or \<open>v > LV_VER_RES_MAX\<close>, \<open>set_resolution(h, v)\<close>
  fails on its assertion (and leaves the object as it was).
\<close>

theorem set_then_get_resolution:
  "(sint h \<le> LV_HOR_RES_MAX cfg \<and> sint v \<le> LV_VER_RES_MAX cfg \<longrightarrow>
      (\<exists>this'. set_resolution cfg h v this = Inr this' \<and> fst (get_resolution this') = (h, v)))
   \<and> (LV_HOR_RES_MAX cfg < sint h \<or> LV_VER_RES_MAX cfg < sint v \<longrightarrow>
      set_resolution cfg h v this = Inl (AssertionFailed, this))"
  by (simp add: set_resolution_in_bounds set_resolution_out_of_bounds get_resolution_def)

theorem set_then_get_resolution_witness:
  "(\<exists>this'. set_resolution cfg_480x320 240 160 (member_initializers cfg_480x320) = Inr this'
       \<and> fst (get_resolution this') = (240, 160))
   \<and> set_resolution cfg_480x320 481 160 (member_initializers cfg_480x320)
       = Inl (AssertionFailed, member_initializers cfg_480x320)
   \<and> set_resolution cfg_480x320 240 321 (member_initializers cfg_480x320)
       = Inl (AssertionFailed, member_initializers cfg_480x320)"
  using set_then_get_resolution [of 240 cfg_480x320 160 "member_initializers cfg_480x320"]
    set_then_get_resolution [of 481 cfg_480x320 160 "member_initializers cfg_480x320"]
    set_then_get_resolution [of 240 cfg_480x320 321 "member_initializers cfg_480x320"]
  by (simp add: cfg_480x320_def)

text \<open>
  C9. \<open>set_resolution(h, v)\<close> with in-bounds arguments changes \<open>hor_res\<close> and
  \<open>ver_res\<close> only: both buffer views, the ownership flag, the descriptor and the
  back-reference are as before the call. \<open>get_resolution\<close> changes nothing in any
  object.
\<close>

theorem set_resolution_frame:
  "sint h \<le> LV_HOR_RES_MAX cfg \<Longrightarrow> sint v \<le> LV_VER_RES_MAX cfg \<Longrightarrow>
     (\<exists>this'. set_resolution cfg h v this = Inr this'
        \<and> primary_display_buffer this' = primary_display_buffer this
        \<and> secondary_display_buffer this' = secondary_display_buffer this
        \<and> user_provided_display_buffer this' = user_provided_display_buffer this
        \<and> lv_buf this' = lv_buf this
        \<and> lv_disp_obj this' = lv_disp_obj this)
     \<and> snd (get_resolution that) = that"
  by (simp add: set_resolution_in_bounds get_resolution_def)

theorem set_resolution_frame_witness:
  "(\<exists>this'. set_resolution cfg_480x320 240 160 (set_lv_disp_obj 77 (member_initializers cfg_480x320))
        = Inr this'
      \<and> primary_display_buffer this' = Span_default
      \<and> secondary_display_buffer this' = Span_default
      \<and> user_provided_display_buffer this' = None
      \<and> lv_buf this' = None
      \<and> lv_disp_obj this' = 77)
   \<and> snd (get_resolution (member_initializers cfg_480x320)) = member_initializers cfg_480x320"
  using set_resolution_frame [of 240 cfg_480x320 160
      "set_lv_disp_obj 77 (member_initializers cfg_480x320)" "member_initializers cfg_480x320"]
  by (simp add: cfg_480x320_def member_initializers_def set_lv_disp_obj_def)

subsection \<open>The free store\<close>






subsection \<open>The three ways through the constructor\<close>

lemma ctor_allocates:
  "span_empty p \<Longrightarrow>
     LVGLDisplayDriver_ctor cfg p s h =
       Inr (initialize_display_buffers
              ((member_initializers cfg)
                 \<lparr>user_provided_display_buffer := Some False,
                  primary_display_buffer :=
                    Span (fresh_ptr h) (MBED_CONF_MBED_LVGL_DEFAULT_DISPLAY_BUFFER_SIZE cfg),
                  secondary_display_buffer := s\<rparr>),
            h\<lparr>blocks :=
                (fresh_ptr h, MBED_CONF_MBED_LVGL_DEFAULT_DISPLAY_BUFFER_SIZE cfg) # blocks h\<rparr>)"
  by (simp add: LVGLDisplayDriver_ctor_def new_array_def)

lemma ctor_adopts:
  "\<not> span_empty p \<Longrightarrow> span_empty s \<or> span_size s = span_size p \<Longrightarrow>
     LVGLDisplayDriver_ctor cfg p s h =
       Inr (initialize_display_buffers
              ((member_initializers cfg)
                 \<lparr>user_provided_display_buffer := Some True,
                  primary_display_buffer := p,
                  secondary_display_buffer := s\<rparr>),
            h)"
  by (simp add: LVGLDisplayDriver_ctor_def MBED_ASSERT_def)

lemma ctor_halts:
  "\<not> span_empty p \<Longrightarrow> \<not> span_empty s \<Longrightarrow> span_size s \<noteq> span_size p \<Longrightarrow>
     LVGLDisplayDriver_ctor cfg p s h =
       Inl (AssertionFailed,
            (member_initializers cfg)
              \<lparr>user_provided_display_buffer := Some True, primary_display_buffer := p\<rparr>,
            h)"
  by (simp add: LVGLDisplayDriver_ctor_def MBED_ASSERT_def)

lemma ctor_returns_cases:
  assumes "LVGLDisplayDriver_ctor cfg p s h = Inr (this, h')"
  shows "(span_empty p
            \<and> this = initialize_display_buffers
                ((member_initializers cfg)
                   \<lparr>user_provided_display_buffer := Some False,
                    primary_display_buffer :=
                      Span (fresh_ptr h) (MBED_CONF_MBED_LVGL_DEFAULT_DISPLAY_BUFFER_SIZE cfg),
                    secondary_display_buffer := s\<rparr>)
            \<and> h' = h\<lparr>blocks :=
                (fresh_ptr h, MBED_CONF_MBED_LVGL_DEFAULT_DISPLAY_BUFFER_SIZE cfg) # blocks h\<rparr>)
         \<or> (\<not> span_empty p
            \<and> this = initialize_display_buffers
                ((member_initializers cfg)
                   \<lparr>user_provided_display_buffer := Some True,
                    primary_display_buffer := p,
                    secondary_display_buffer := s\<rparr>)
            \<and> h' = h)"
proof (cases "span_empty p")
  case True
  with assms show ?thesis
    by (simp add: ctor_allocates)
next
  case False
  show ?thesis
  proof (cases "span_empty s \<or> span_size s = span_size p")
    case True
    with False assms show ?thesis
      by (simp add: ctor_adopts)
  next
    case False
    with \<open>\<not> span_empty p\<close> assms show ?thesis
      by (simp add: ctor_halts)
  qed
qed

subsection \<open>Construction\<close>

text \<open>
  C1, at the input where the code departs from it: the construction with no primary
  buffer and a secondary buffer of 32 pixels, the default length being 4800. No
  assertion is evaluated on this path; the adapter is constructed with a primary
  buffer of 4800 pixels and a secondary buffer of 32, and the descriptor is
  initialized with both and the length 4800.
\<close>

theorem ctor_unequal_buffers_constructed:
  "LVGLDisplayDriver_ctor cfg_480x320 Span_default buffer_32 heap_empty =
     Inr (\<lparr>primary_display_buffer = Span 1 4800,
           secondary_display_buffer = Span 8192 32,
           hor_res = 480, ver_res = 320,
           lv_buf = Some (lv_disp_buf_init 1 8192 4800),
           user_provided_display_buffer = Some False,
           lv_disp_obj = NULL\<rparr>,
          \<lparr>blocks = [(1, 4800)], deleted = []\<rparr>)
   \<and> \<not> span_empty (Span 1 4800) \<and> \<not> span_empty (Span 8192 32)
   \<and> span_size (Span 1 4800) \<noteq> span_size (Span 8192 32)"
  by (simp add: LVGLDisplayDriver_ctor_def new_array_def fresh_ptr_def
      initialize_display_buffers_def member_initializers_def cfg_480x320_def
      Span_default_def Span_def span_empty_def buffer_32_def heap_empty_def)

text \<open>
  C4, as the claim states it, at the primary buffer of 64 pixels and the secondary
  buffer of 32: the construction halts on the assertion, but not before any state is
  set. The object at the halt is not the object the constructor's body started
  with: the ownership flag and the primary buffer view have been written.
\<close>

theorem ctor_64_32_state_at_halt:
  "LVGLDisplayDriver_ctor cfg_480x320 buffer_64 buffer_32 heap_empty =
     Inl (AssertionFailed,
          \<lparr>primary_display_buffer = Span 4096 64,
           secondary_display_buffer = Span NULL 0,
           hor_res = 480, ver_res = 320,
           lv_buf = None,
           user_provided_display_buffer = Some True,
           lv_disp_obj = NULL\<rparr>,
          heap_empty)
   \<and> LVGLDisplayDriver_ctor cfg_480x320 buffer_64 buffer_32 heap_empty \<noteq>
       Inl (AssertionFailed, member_initializers cfg_480x320, heap_empty)"
  by (simp add: LVGLDisplayDriver_ctor_def MBED_ASSERT_def member_initializers_def
      cfg_480x320_def Span_default_def Span_def span_empty_def buffer_64_def buffer_32_def)

text \<open>
  C4, amended. Every construction with a non-empty primary and a non-empty
  secondary buffer of unequal lengths halts on the assertion. At the halt the
  resolution is the maximal one, the back-reference is \<open>NULL\<close>, the ownership flag
  says caller-provided and the primary view is the caller's; the secondary view is
  still the default (empty) one, the descriptor is not initialized and the heap is
  untouched.
\<close>

theorem ctor_unequal_lengths_halts:
  "\<not> span_empty p \<Longrightarrow> \<not> span_empty s \<Longrightarrow> span_size s \<noteq> span_size p \<Longrightarrow>
     \<exists>this. LVGLDisplayDriver_ctor cfg p s h = Inl (AssertionFailed, this, h)
       \<and> hor_res this = word_of_int (LV_HOR_RES_MAX cfg)
       \<and> ver_res this = word_of_int (LV_VER_RES_MAX cfg)
       \<and> lv_disp_obj this = NULL
       \<and> user_provided_display_buffer this = Some True
       \<and> primary_display_buffer this = p
       \<and> secondary_display_buffer this = Span_default
       \<and> lv_buf this = None"
  by (simp add: ctor_halts member_initializers_def)

theorem ctor_unequal_lengths_halts_witness:
  "\<exists>this. LVGLDisplayDriver_ctor cfg_480x320 buffer_64 buffer_32 heap_empty
       = Inl (AssertionFailed, this, heap_empty)
     \<and> hor_res this = 480
     \<and> ver_res this = 320
     \<and> lv_disp_obj this = NULL
     \<and> user_provided_display_buffer this = Some True
     \<and> primary_display_buffer this = buffer_64
     \<and> secondary_display_buffer this = Span_default
     \<and> lv_buf this = None"
  using ctor_unequal_lengths_halts [of buffer_64 buffer_32 cfg_480x320 heap_empty]
  by (simp add: span_empty_def buffer_64_def buffer_32_def Span_def cfg_480x320_def)

text \<open>
  C8. Whenever the constructor is not halted by its assertion, it returns, and the
  object it returns has its descriptor initialized by \<open>lv_disp_buf_init\<close> from
  the buffers as allocated or adopted: the primary buffer's pointer, the secondary
  buffer's pointer and the primary buffer's length. The primary buffer is the
  allocated one when the caller passed none and the caller's otherwise; the
  secondary buffer is the caller's.
\<close>

theorem ctor_initializes_lv_buf:
  "(span_empty p \<or> span_empty s \<or> span_size s = span_size p \<longrightarrow>
      (\<exists>this h'. LVGLDisplayDriver_ctor cfg p s h = Inr (this, h')))
   \<and> (LVGLDisplayDriver_ctor cfg p s h = Inr (this, h') \<longrightarrow>
        lv_buf this = Some (lv_disp_buf_init
          (span_data (primary_display_buffer this))
          (span_data (secondary_display_buffer this))
          (span_size (primary_display_buffer this)))
        \<and> primary_display_buffer this =
            (if span_empty p
             then Span (fresh_ptr h) (MBED_CONF_MBED_LVGL_DEFAULT_DISPLAY_BUFFER_SIZE cfg)
             else p)
        \<and> secondary_display_buffer this = s)"
proof (intro conjI impI)
  assume "span_empty p \<or> span_empty s \<or> span_size s = span_size p"
  then show "\<exists>this h'. LVGLDisplayDriver_ctor cfg p s h = Inr (this, h')"
    by (cases "span_empty p") (auto simp: ctor_allocates ctor_adopts)
next
  assume r: "LVGLDisplayDriver_ctor cfg p s h = Inr (this, h')"
  show "lv_buf this = Some (lv_disp_buf_init
          (span_data (primary_display_buffer this))
          (span_data (secondary_display_buffer this))
          (span_size (primary_display_buffer this)))"
    using ctor_returns_cases [OF r] by (auto simp: initialize_display_buffers_def)
  show "primary_display_buffer this =
          (if span_empty p
           then Span (fresh_ptr h) (MBED_CONF_MBED_LVGL_DEFAULT_DISPLAY_BUFFER_SIZE cfg)
           else p)"
    using ctor_returns_cases [OF r] by (auto simp: initialize_display_buffers_def)
  show "secondary_display_buffer this = s"
    using ctor_returns_cases [OF r] by (auto simp: initialize_display_buffers_def)
qed

theorem ctor_initializes_lv_buf_witness:
  "(\<exists>this h'. LVGLDisplayDriver_ctor cfg_480x320 buffer_64 other_buffer_64 heap_empty
       = Inr (this, h'))
   \<and> LVGLDisplayDriver_ctor cfg_480x320 buffer_64 other_buffer_64 heap_empty =
       Inr (\<lparr>primary_display_buffer = Span 4096 64,
             secondary_display_buffer = Span 8192 64,
             hor_res = 480, ver_res = 320,
             lv_buf = Some (lv_disp_buf_init 4096 8192 64),
             user_provided_display_buffer = Some True,
             lv_disp_obj = NULL\<rparr>,
            heap_empty)
   \<and> lv_buf \<lparr>primary_display_buffer = Span 4096 64,
             secondary_display_buffer = Span 8192 64,
             hor_res = 480, ver_res = 320,
             lv_buf = Some (lv_disp_buf_init 4096 8192 64),
             user_provided_display_buffer = Some True,
             lv_disp_obj = NULL\<rparr>
       = Some (lv_disp_buf_init (span_data (Span 4096 64)) (span_data (Span 8192 64))
           (span_size (Span 4096 64)))"
  using ctor_initializes_lv_buf [of buffer_64 other_buffer_64 cfg_480x320 heap_empty
      "\<lparr>primary_display_buffer = Span 4096 64,
        secondary_display_buffer = Span 8192 64,
        hor_res = 480, ver_res = 320,
        lv_buf = Some (lv_disp_buf_init 4096 8192 64),
        user_provided_display_buffer = Some True,
        lv_disp_obj = NULL\<rparr>" heap_empty]
  by (simp add: LVGLDisplayDriver_ctor_def MBED_ASSERT_def member_initializers_def
      initialize_display_buffers_def cfg_480x320_def Span_default_def Span_def
      span_empty_def buffer_64_def other_buffer_64_def)

text \<open>
  C10. The object a construction returns has the back-reference \<open>NULL\<close>, and on
  every object \<open>get_lv_disp_obj()\<close> after \<open>set_lv_disp_obj(d)\<close> returns \<open>d\<close>.
\<close>

theorem get_lv_disp_obj_reads_last_set:
  "(LVGLDisplayDriver_ctor cfg p s h = Inr (this, h') \<longrightarrow> fst (get_lv_disp_obj this) = NULL)
   \<and> fst (get_lv_disp_obj (set_lv_disp_obj d that)) = d"
proof (intro conjI impI)
  assume r: "LVGLDisplayDriver_ctor cfg p s h = Inr (this, h')"
  show "fst (get_lv_disp_obj this) = NULL"
    using ctor_returns_cases [OF r]
    by (auto simp: get_lv_disp_obj_def initialize_display_buffers_def member_initializers_def)
next
  show "fst (get_lv_disp_obj (set_lv_disp_obj d that)) = d"
    by (simp add: get_lv_disp_obj_def set_lv_disp_obj_def)
qed

theorem get_lv_disp_obj_reads_last_set_witness:
  "LVGLDisplayDriver_ctor cfg_480x320 Span_default Span_default heap_empty =
     Inr (\<lparr>primary_display_buffer = Span 1 4800,
           secondary_display_buffer = Span NULL 0,
           hor_res = 480, ver_res = 320,
           lv_buf = Some (lv_disp_buf_init 1 NULL 4800),
           user_provided_display_buffer = Some False,
           lv_disp_obj = NULL\<rparr>,
          \<lparr>blocks = [(1, 4800)], deleted = []\<rparr>)
   \<and> fst (get_lv_disp_obj
        \<lparr>primary_display_buffer = Span 1 4800,
         secondary_display_buffer = Span NULL 0,
         hor_res = 480, ver_res = 320,
         lv_buf = Some (lv_disp_buf_init 1 NULL 4800),
         user_provided_display_buffer = Some False,
         lv_disp_obj = NULL\<rparr>) = NULL
   \<and> fst (get_lv_disp_obj (set_lv_disp_obj 77 (member_initializers cfg_480x320))) = 77"
  using get_lv_disp_obj_reads_last_set [of cfg_480x320 Span_default Span_default heap_empty
      "\<lparr>primary_display_buffer = Span 1 4800,
        secondary_display_buffer = Span NULL 0,
        hor_res = 480, ver_res = 320,
        lv_buf = Some (lv_disp_buf_init 1 NULL 4800),
        user_provided_display_buffer = Some False,
        lv_disp_obj = NULL\<rparr>"
      "\<lparr>blocks = [(1, 4800)], deleted = []\<rparr>" 77 "member_initializers cfg_480x320"]
  by (simp add: LVGLDisplayDriver_ctor_def new_array_def fresh_ptr_def
      initialize_display_buffers_def member_initializers_def cfg_480x320_def
      Span_default_def Span_def span_empty_def heap_empty_def)

subsection \<open>Destruction\<close>









subsection \<open>The default hooks\<close>

text \<open>
  C6. In the base class \<open>has_rounder()\<close> and \<open>has_pix_write_func()\<close> return false
  on every object, and the default \<open>round_lv_area\<close> and \<open>set_pixel\<close> leave the
  object, the objects behind their pointer arguments and the standard output as
  they were, whatever the arguments.
\<close>

theorem default_hooks_do_nothing:
  "has_rounder this = False
   \<and> has_pix_write_func this = False
   \<and> round_lv_area this disp_drv area out = (this, disp_drv, area, out)
   \<and> set_pixel this disp_drv buf buf_w x y color opa out = (this, disp_drv, buf, out)"
  by (simp add: has_rounder_def has_pix_write_func_def round_lv_area_def set_pixel_def)

text \<open>
  C7, at the input where the code departs from it: flush monitoring compiled in, a
  refresh of 1000 pixels in 16 milliseconds. The one \<open>printf\<close> call gets the
  elapsed time 16 as the argument of \<open>%d px\<close> and \<open>ms\<close> as the argument
  of \<open>%d ms\<close>; the pixel count 1000 is not among the arguments. With monitoring
  compiled out the call leaves everything as it was.
\<close>

theorem monitor_prints_time_as_pixels:
  "monitor cfg_monitoring ms this disp_drv 16 1000 out
     = (this, disp_drv, out @ [Printf (''%d px refreshed in %d ms'' @ [CHR 0x0A]) [16, ms]])
   \<and> monitor cfg_480x320 ms this disp_drv 16 1000 out = (this, disp_drv, out)"
  by (simp add: monitor_def cfg_monitoring_def cfg_480x320_def)

end
